theory Spec2Isabelle
  imports Main
begin

section \<open>Strings: the parts of Go's strings package the sources call\<close>

text \<open>
  \<^verbatim>\<open>strings.Split(s, sep)\<close> for a one-byte separator: the pieces of \<open>s\<close> between the
  occurrences of the separator. A string without the separator (the empty string too)
  gives one piece.
\<close>

fun Split :: "string \<Rightarrow> char \<Rightarrow> string list" where
  "Split [] sep = [[]]"
| "Split (c # cs) sep =
     (if c = sep then [] # Split cs sep
      else (c # hd (Split cs sep)) # tl (Split cs sep))"

text \<open>\<^verbatim>\<open>strings.Join(elems, sep)\<close>.\<close>

fun Join :: "string list \<Rightarrow> string \<Rightarrow> string" where
  "Join [] sep = []"
| "Join [x] sep = x"
| "Join (x # y # ys) sep = x @ sep @ Join (y # ys) sep"

text \<open>
  \<^verbatim>\<open>strings.Replace(s, "?", new, 1)\<close>: the first occurrence of the byte is replaced,
  a string without it is returned as it is.
\<close>

fun Replace1 :: "string \<Rightarrow> char \<Rightarrow> string \<Rightarrow> string" where
  "Replace1 [] old new = []"
| "Replace1 (c # cs) old new = (if c = old then new @ cs else c # Replace1 cs old new)"

section \<open>The dialect\<close>

text \<open>
  \<^verbatim>\<open>e.Dialect\<close> is an interface whose implementations are not among the sources; the two
  methods the sources call are taken as parameters.
\<close>

record dialect =
  DQuote :: "string \<Rightarrow> string"
  BindVar :: "nat \<Rightarrow> string"

section \<open>Quote (scope.go, lines 35-44)\<close>

definition Quote :: "dialect \<Rightarrow> string \<Rightarrow> string" where
  "Quote d str =
     (if CHR ''.'' \<in> set str
      then Join (map (DQuote d) (Split str CHR ''.'')) ''.''
      else DQuote d str)"

section \<open>AddToVars (scope.go, lines 707-718)\<close>

text \<open>
  The \<^verbatim>\<open>interface{}\<close> values that reach \<^verbatim>\<open>AddToVars\<close>: a \<^verbatim>\<open>*model.Expr\<close> with its text
  \<^verbatim>\<open>Q\<close> and its arguments \<^verbatim>\<open>Args\<close>, a nil \<^verbatim>\<open>*model.Expr\<close> (the type assertion succeeds
  and reading \<^verbatim>\<open>expr.Q\<close> panics), or any other value.
\<close>

datatype 'a gvalue = Expr string "'a gvalue list" | NilExpr | Lit 'a

text \<open>
  The state is \<^verbatim>\<open>e.Scope.SQLVars\<close>. The result is \<open>None\<close> when the call panics.
  \<open>AddToVars_args\<close> is the loop over \<^verbatim>\<open>expr.Args\<close>, carrying \<^verbatim>\<open>exp\<close>.
\<close>

fun AddToVars :: "dialect \<Rightarrow> 'a gvalue \<Rightarrow> 'a gvalue list \<Rightarrow> (string \<times> 'a gvalue list) option"
  and AddToVars_args ::
    "dialect \<Rightarrow> string \<Rightarrow> 'a gvalue list \<Rightarrow> 'a gvalue list \<Rightarrow> (string \<times> 'a gvalue list) option"
where
  "AddToVars d (Expr q args) vars = AddToVars_args d q args vars"
| "AddToVars d NilExpr vars = None"
| "AddToVars d (Lit v) vars = Some (BindVar d (length (vars @ [Lit v])), vars @ [Lit v])"
| "AddToVars_args d exp [] vars = Some (exp, vars)"
| "AddToVars_args d exp (arg # args) vars =
     (case AddToVars d arg vars of
        None \<Rightarrow> None
      | Some (ph, vars') \<Rightarrow> AddToVars_args d (Replace1 exp CHR ''?'' ph) args vars')"

text \<open>The values an argument finally appends, in the order of the calls.\<close>

fun leaves :: "'a gvalue \<Rightarrow> 'a gvalue list" where
  "leaves (Expr q args) = concat (map leaves args)"
| "leaves NilExpr = []"
| "leaves (Lit v) = [Lit v]"

text \<open>
  What the documentation of \<^verbatim>\<open>AddToVars\<close> promises for an expression, written as one pass
  over the text from the left: the first \<open>?\<close> takes the first placeholder, the next \<open>?\<close>
  the next one; the text after the last placeholder is kept.
\<close>

fun bind_left_to_right :: "string \<Rightarrow> string list \<Rightarrow> string" where
  "bind_left_to_right [] phs = []"
| "bind_left_to_right (c # cs) [] = c # cs"
| "bind_left_to_right (c # cs) (p # ps) =
     (if c = CHR ''?'' then p @ bind_left_to_right cs ps
      else c # bind_left_to_right cs (p # ps))"

section \<open>A dialect for the examples\<close>

text \<open>\<^verbatim>\<open>strconv.Itoa\<close> on a natural number.\<close>

fun itoa :: "nat \<Rightarrow> string" where
  "itoa n =
     (if n < 10 then [''0123456789'' ! n]
      else itoa (n div 10) @ [''0123456789'' ! (n mod 10)])"

declare itoa.simps [simp del]

text \<open>
  Modelled from the spec: the dialect implementations (package \<^verbatim>\<open>dialects/ql\<close>) are not
  among the sources. The spec names "a dialect whose placeholder is \<^verbatim>\<open>$N\<close>", and the tests
  of the builder expect identifiers between double quotes.
\<close>

definition ql_dialect :: dialect where
  "ql_dialect = \<lparr>DQuote = (\<lambda>s. [CHR 0x22] @ s @ [CHR 0x22]), BindVar = (\<lambda>n. CHR ''$'' # itoa n)\<rparr>"

section \<open>Conditions on a collection of primary keys\<close>

text \<open>The loop that sends every value of a collection through \<^verbatim>\<open>AddToVars\<close>.\<close>

fun bind_all ::
  "dialect \<Rightarrow> 'a gvalue list \<Rightarrow> 'a gvalue list \<Rightarrow> (string list \<times> 'a gvalue list) option"
where
  "bind_all d [] vars = Some ([], vars)"
| "bind_all d (v # vs) vars =
     (case AddToVars d v vars of
        None \<Rightarrow> None
      | Some (ph, vars') \<Rightarrow>
          (case bind_all d vs vars' of
             None \<Rightarrow> None
           | Some (phs, vars'') \<Rightarrow> Some (ph # phs, vars'')))"

text \<open>
  Modelled from the spec: \<^verbatim>\<open>builder.Where\<close> and \<^verbatim>\<open>builder.Not\<close> are not among the sources
  (only their tests are). Section 4.3 of the spec: a collection of primary-key values
  "compiles to \<^verbatim>\<open>quotedTable.quotedPrimaryKeyColumn IN (placeholder, placeholder, ...)\<close>; an
  empty collection compiles to an empty fragment (no clause emitted)"; for the negation
  "collection membership becomes \<^verbatim>\<open>NOT IN\<close>; a negated empty collection also compiles to an
  empty fragment". The fragment is "parenthesized" and every literal goes "through a
  positional-parameter binder". The arguments are the quoted table name, the primary-key
  column, the keys and the bound values so far.
\<close>

definition primary_keys_sql ::
  "dialect \<Rightarrow> string \<Rightarrow> string \<Rightarrow> string \<Rightarrow> 'a gvalue list \<Rightarrow> 'a gvalue list
     \<Rightarrow> (string \<times> 'a gvalue list) option"
where
  "primary_keys_sql d membership quotedTable pk keys vars =
     (if keys = [] then Some ([], vars)
      else
        (case bind_all d keys vars of
           None \<Rightarrow> None
         | Some (phs, vars') \<Rightarrow>
             Some (''('' @ quotedTable @ ''.'' @ Quote d pk @ membership @ ''(''
                     @ Join phs '','' @ ''))'', vars')))"

definition Where_primary_keys ::
  "dialect \<Rightarrow> string \<Rightarrow> string \<Rightarrow> 'a gvalue list \<Rightarrow> 'a gvalue list
     \<Rightarrow> (string \<times> 'a gvalue list) option"
where
  "Where_primary_keys d = primary_keys_sql d '' IN ''"

definition Not_primary_keys ::
  "dialect \<Rightarrow> string \<Rightarrow> string \<Rightarrow> 'a gvalue list \<Rightarrow> 'a gvalue list
     \<Rightarrow> (string \<times> 'a gvalue list) option"
where
  "Not_primary_keys d = primary_keys_sql d '' NOT IN ''"

section \<open>Go types, declarations and values seen through reflection\<close>

text \<open>
  The kinds of \<^verbatim>\<open>reflect.Type\<close> the sources tell apart: pointers, slices, structs (known by
  their identity, a name) and everything else. Struct types can refer to one another in any
  way, so their fields are looked up by name in the program.
\<close>

datatype gotype = TPtr gotype | TSlice gotype | TStruct string | TOther string

text \<open>
  A field of a struct type (\<^verbatim>\<open>reflect.StructField\<close>). \<^verbatim>\<open>model.ParseTagSetting\<close> is not among
  the sources: a field carries the settings its tag parses to.
\<close>

record field_decl =
  FName :: string
  FType :: gotype
  FAnonymous :: bool
  FTagSettings :: "string \<rightharpoonup> string"

record struct_decl =
  SName :: string
  SFields :: "field_decl list"

text \<open>
  What the sources take from the Go program and from the packages that are not among them:
  the struct declarations, which types implement \<^verbatim>\<open>sql.Scanner\<close>, \<^verbatim>\<open>engine.Tabler\<close> and
  \<^verbatim>\<open>engine.DBTabler\<close> (with the table name their method returns), \<^verbatim>\<open>util.ToDBName\<close> and
  \<^verbatim>\<open>inflection.Plural\<close>.
\<close>

record program =
  Decl :: "string \<Rightarrow> struct_decl"
  Scanner :: "gotype \<Rightarrow> bool"
  Tabler :: "gotype \<Rightarrow> string option"
  DBTabler :: "gotype \<Rightarrow> string option"
  ToDBName :: "string \<Rightarrow> string"
  Plural :: "string \<Rightarrow> string"

definition time_Time :: gotype where
  "time_Time = TStruct ''time.Time''"

text \<open>\<^verbatim>\<open>ast.IsExported\<close>, on ASCII names: the name starts with an upper-case letter.\<close>

definition IsExported :: "string \<Rightarrow> bool" where
  "IsExported name = (name \<noteq> [] \<and> hd name \<in> set ''ABCDEFGHIJKLMNOPQRSTUVWXYZ'')"

text \<open>
  A non-nil \<^verbatim>\<open>interface{}\<close> value, as far as the sources look at it: its dynamic type, whether
  it is a nil pointer, and for a path of field names from the struct it holds, whether the
  value reached there is a struct after one \<^verbatim>\<open>reflect.Indirect\<close>. A nil interface is \<open>None\<close>.
\<close>

record rvalue =
  VType :: gotype
  VNil :: bool
  VStructAt :: "string list \<Rightarrow> bool"

text \<open>
  In the zero value of a type every pointer is nil: the value at a path is a struct exactly
  when every field on the path has a struct type itself.
\<close>

fun zeroStructAt :: "program \<Rightarrow> gotype \<Rightarrow> string list \<Rightarrow> bool" where
  "zeroStructAt p (TStruct s) [] = True"
| "zeroStructAt p (TStruct s) (n # ns) =
     (case find (\<lambda>f. FName f = n) (SFields (Decl p s)) of
        None \<Rightarrow> False
      | Some f \<Rightarrow> zeroStructAt p (FType f) ns)"
| "zeroStructAt p t ns = False"

text \<open>\<^verbatim>\<open>reflect.New(t).Interface()\<close>: a pointer to the zero value of \<open>t\<close>.\<close>

definition New :: "program \<Rightarrow> gotype \<Rightarrow> rvalue" where
  "New p t = \<lparr>VType = TPtr t, VNil = False, VStructAt = zeroStructAt p t\<rparr>"

section \<open>The model package: field and struct descriptions\<close>

record Relationship =
  Kind :: string
  PolymorphicType :: string
  PolymorphicDBName :: string
  PolymorphicValue :: string
  ForeignFieldNames :: "string list"
  ForeignDBNames :: "string list"
  AssociationForeignFieldNames :: "string list"
  AssociationForeignDBNames :: "string list"

definition emptyRelationship :: Relationship where
  "emptyRelationship =
     \<lparr>Kind = [], PolymorphicType = [], PolymorphicDBName = [], PolymorphicValue = [],
      ForeignFieldNames = [], ForeignDBNames = [],
      AssociationForeignFieldNames = [], AssociationForeignDBNames = []\<rparr>"

record StructField =
  Name :: string
  Names :: "string list"
  DBName :: string
  TagSettings :: "string \<rightharpoonup> string"
  IsIgnored :: bool
  IsPrimaryKey :: bool
  HasDefaultValue :: bool
  IsScanner :: bool
  IsNormal :: bool
  IsForeignKey :: bool
  Struct :: field_decl
  Relationship :: "Relationship option"

text \<open>
  \<^verbatim>\<open>model.Struct\<close>. Its two slices hold pointers to field descriptions: addresses of cells
  of the heap below. The cached type is known by the identity of the struct type.
\<close>

record ModelStruct =
  ModelType :: string
  DefaultTableName :: string
  StructFields :: "nat list"
  PrimaryFields :: "nat list"

text \<open>
  Modelled from the spec: \<^verbatim>\<open>(*model.StructField).Clone\<close> is not among the sources; for the
  spec "every sub-field is cloned": the clone is a new cell with the same content.
\<close>

definition Clone :: "StructField \<Rightarrow> StructField" where
  "Clone f = f"

section \<open>The engine, the state and the outcomes of a call\<close>

text \<open>
  The parts of \<^verbatim>\<open>engine.Engine\<close> that the calls read. \<open>Search\<close> is \<open>None\<close> when \<^verbatim>\<open>e.Search\<close> is
  nil, and holds \<^verbatim>\<open>e.Search.TableName\<close> otherwise.
\<close>

record engine =
  Dialect :: dialect
  SingularTable :: bool
  Search :: "string option"

text \<open>
  What the calls change: the cells the \<^verbatim>\<open>*model.StructField\<close> pointers point to (\<open>Next\<close> is
  the first address not yet allocated) and \<^verbatim>\<open>e.StructMap\<close>, the cache.
\<close>

record state =
  Heap :: "nat \<Rightarrow> StructField"
  Next :: nat
  StructMap :: "string \<rightharpoonup> ModelStruct"

text \<open>
  The errors the sources return, by their messages: "nil value", "... is not supported,
  value should be a struct", "invalid foreign keys, should have same length",
  "field not found" and "no field found".
\<close>

datatype error = NilValue | NotSupported | InvalidForeignKeys | FieldNotFound | NoFieldFound

text \<open>
  A call returns a value and a state, panics, or the model runs out of fuel (the recursion
  of the sources is not bounded). A Go function with an \<^verbatim>\<open>error\<close> result returns a sum.
\<close>

datatype 'a outcome = Timeout | Panic | Ret 'a

type_synonym 'a M = "state \<Rightarrow> ('a \<times> state) outcome"

definition ret :: "'a \<Rightarrow> 'a M" where
  "ret x = (\<lambda>s. Ret (x, s))"

definition panic :: "'a M" where
  "panic = (\<lambda>s. Panic)"

definition bnd :: "'a M \<Rightarrow> ('a \<Rightarrow> 'b M) \<Rightarrow> 'b M" where
  "bnd m k = (\<lambda>s. case m s of Timeout \<Rightarrow> Timeout | Panic \<Rightarrow> Panic | Ret (x, s') \<Rightarrow> k x s')"

text \<open>\<^verbatim>\<open>x, err := m; if err != nil { return err }\<close> and on with \<open>x\<close>.\<close>

definition bnd_ok :: "(error + 'a) M \<Rightarrow> ('a \<Rightarrow> (error + 'b) M) \<Rightarrow> (error + 'b) M" where
  "bnd_ok m k = bnd m (\<lambda>r. case r of Inl err \<Rightarrow> ret (Inl err) | Inr x \<Rightarrow> k x)"

definition get_heap :: "(nat \<Rightarrow> StructField) M" where
  "get_heap = (\<lambda>s. Ret (Heap s, s))"

definition heap_upd :: "nat \<Rightarrow> (StructField \<Rightarrow> StructField) \<Rightarrow> unit M" where
  "heap_upd a f = (\<lambda>s. Ret ((), s\<lparr>Heap := (Heap s)(a := f (Heap s a))\<rparr>))"

definition alloc :: "StructField \<Rightarrow> nat M" where
  "alloc v = (\<lambda>s. Ret (Next s, s\<lparr>Heap := (Heap s)(Next s := v), Next := Suc (Next s)\<rparr>))"

definition StructMap_Get :: "string \<Rightarrow> ModelStruct option M" where
  "StructMap_Get k = (\<lambda>s. Ret (StructMap s k, s))"

definition StructMap_Set :: "string \<Rightarrow> ModelStruct \<Rightarrow> unit M" where
  "StructMap_Set k m = (\<lambda>s. Ret ((), s\<lparr>StructMap := (StructMap s)(k \<mapsto> m)\<rparr>))"

section \<open>Lookups in a resolved struct (scope.go)\<close>

text \<open>\<^verbatim>\<open>GetForeignField\<close> (lines 736-743), on the cells \<open>h\<close> the pointers point to.\<close>

fun GetForeignField :: "program \<Rightarrow> (nat \<Rightarrow> StructField) \<Rightarrow> string \<Rightarrow> nat list \<Rightarrow> nat option" where
  "GetForeignField p h column [] = None"
| "GetForeignField p h column (field # flds) =
     (if Name (h field) = column \<or> DBName (h field) = column
         \<or> DBName (h field) = ToDBName p column
      then Some field
      else GetForeignField p h column flds)"

text \<open>
  \<^verbatim>\<open>Fields\<close> (lines 49-77). For a struct value the loop reads the value of every field along
  its \<^verbatim>\<open>Names\<close>: \<^verbatim>\<open>reflect.Indirect(fieldValue).FieldByName(name)\<close> panics when the value
  reached before a further name is not a struct. The \<^verbatim>\<open>*model.Field\<close> results are known by
  the \<^verbatim>\<open>*model.StructField\<close> they embed; the field values and \<^verbatim>\<open>util.IsBlank\<close> (not among
  the sources) are left out.
\<close>

definition isStruct :: "rvalue option \<Rightarrow> bool" where
  "isStruct value =
     (case value of
        None \<Rightarrow> False
      | Some v \<Rightarrow>
          (case VType v of
             TPtr (TStruct s) \<Rightarrow> \<not> VNil v
           | TStruct s \<Rightarrow> True
           | _ \<Rightarrow> False))"

definition walks :: "rvalue option \<Rightarrow> string list \<Rightarrow> bool" where
  "walks value names =
     (case value of
        None \<Rightarrow> True
      | Some v \<Rightarrow> list_all (\<lambda>j. VStructAt v (take j names)) [1 ..< length names])"

definition Fields ::
  "(rvalue option \<Rightarrow> (error + ModelStruct) M) \<Rightarrow> rvalue option \<Rightarrow> (error + nat list) M"
where
  "Fields G value =
     bnd_ok (G value) (\<lambda>m.
       bnd get_heap (\<lambda>h.
         if isStruct value \<and> \<not> list_all (\<lambda>a. walks value (Names (h a))) (StructFields m)
         then panic
         else ret (Inr (StructFields m))))"

text \<open>\<^verbatim>\<open>FieldByName\<close> (lines 584-600) and its loop.\<close>

fun FieldByName_loop ::
  "program \<Rightarrow> (nat \<Rightarrow> StructField) \<Rightarrow> string \<Rightarrow> nat list \<Rightarrow> error + nat"
where
  "FieldByName_loop p h name [] = Inl FieldNotFound"
| "FieldByName_loop p h name (field # fds) =
     (if Name (h field) = name \<or> DBName (h field) = name then Inr field
      else if DBName (h field) = ToDBName p name then Inr field
      else FieldByName_loop p h name fds)"

definition FieldByName ::
  "(rvalue option \<Rightarrow> (error + ModelStruct) M) \<Rightarrow> program \<Rightarrow> rvalue option \<Rightarrow> string
     \<Rightarrow> (error + nat) M"
where
  "FieldByName G p value name =
     bnd_ok (Fields G value) (\<lambda>fds.
       bnd get_heap (\<lambda>h. ret (FieldByName_loop p h name fds)))"

text \<open>\<^verbatim>\<open>PrimaryFields\<close> (lines 603-615); the name \<open>PrimaryFields\<close> is the field of the struct.\<close>

definition PrimaryFieldsOf ::
  "(rvalue option \<Rightarrow> (error + ModelStruct) M) \<Rightarrow> rvalue option \<Rightarrow> (error + nat list) M"
where
  "PrimaryFieldsOf G value =
     bnd_ok (Fields G value) (\<lambda>fds.
       bnd get_heap (\<lambda>h. ret (Inr (filter (\<lambda>field. IsPrimaryKey (h field)) fds))))"

text \<open>\<^verbatim>\<open>PrimaryField\<close> (lines 619-639); \<^verbatim>\<open>pf[0]\<close> panics on an empty slice.\<close>

definition PrimaryField ::
  "(rvalue option \<Rightarrow> (error + ModelStruct) M) \<Rightarrow> program \<Rightarrow> rvalue option \<Rightarrow> (error + nat) M"
where
  "PrimaryField G p value =
     bnd_ok (G value) (\<lambda>m.
       if length (PrimaryFields m) > 0 then
         (if length (PrimaryFields m) > 1 then FieldByName G p value ''id''
          else
            bnd_ok (PrimaryFieldsOf G value) (\<lambda>pf.
              case pf of [] \<Rightarrow> panic | field # _ \<Rightarrow> ret (Inr field)))
       else ret (Inl NoFieldFound))"

text \<open>\<^verbatim>\<open>PrimaryKey\<close> (lines 670-676).\<close>

definition PrimaryKey ::
  "(rvalue option \<Rightarrow> (error + ModelStruct) M) \<Rightarrow> program \<Rightarrow> rvalue option \<Rightarrow> (error + string) M"
where
  "PrimaryKey G p value =
     bnd_ok (PrimaryField G p value) (\<lambda>pf.
       bnd get_heap (\<lambda>h. ret (Inr (DBName (h pf)))))"

text \<open>\<^verbatim>\<open>TableName\<close> (lines 649-667).\<close>

definition implements :: "(gotype \<Rightarrow> string option) \<Rightarrow> rvalue option \<Rightarrow> string option" where
  "implements iface value = (case value of None \<Rightarrow> None | Some v \<Rightarrow> iface (VType v))"

definition TableName ::
  "(rvalue option \<Rightarrow> (error + ModelStruct) M) \<Rightarrow> program \<Rightarrow> engine \<Rightarrow> rvalue option \<Rightarrow> string M"
where
  "TableName G p e value =
     (case Search e of
        Some t \<Rightarrow>
          if length t > 0 then ret t
          else
            (case implements (Tabler p) value of
               Some n \<Rightarrow> ret n
             | None \<Rightarrow>
                 (case implements (DBTabler p) value of
                    Some n \<Rightarrow> ret n
                  | None \<Rightarrow>
                      bnd (G value) (\<lambda>r.
                        case r of Inl err \<Rightarrow> ret [] | Inr ms \<Rightarrow> ret (DefaultTableName ms))))
      | None \<Rightarrow>
          (case implements (Tabler p) value of
             Some n \<Rightarrow> ret n
           | None \<Rightarrow>
               (case implements (DBTabler p) value of
                  Some n \<Rightarrow> ret n
                | None \<Rightarrow>
                    bnd (G value) (\<lambda>r.
                      case r of Inl err \<Rightarrow> ret [] | Inr ms \<Rightarrow> ret (DefaultTableName ms)))))"

section \<open>Relationships (scope.go, buildRelationSlice and buildRelationStruct)\<close>

text \<open>\<^verbatim>\<open>field.TagSettings["KEY"]\<close>, the empty string for a missing key, and a comma list.\<close>

definition tag :: "(string \<rightharpoonup> string) \<Rightarrow> string \<Rightarrow> string" where
  "tag ts k = (case ts k of None \<Rightarrow> [] | Some v \<Rightarrow> v)"

definition tagList :: "(string \<rightharpoonup> string) \<Rightarrow> string \<Rightarrow> string list" where
  "tagList ts k = (if tag ts k \<noteq> [] then Split (tag ts k) CHR '','' else [])"

text \<open>The loops that strip pointers (line 163) and slices and pointers (line 257).\<close>

fun stripPtr :: "gotype \<Rightarrow> gotype" where
  "stripPtr (TPtr t) = stripPtr t"
| "stripPtr t = t"

fun stripSlicePtr :: "gotype \<Rightarrow> gotype" where
  "stripSlicePtr (TPtr t) = stripSlicePtr t"
| "stripSlicePtr (TSlice t) = stripSlicePtr t"
| "stripSlicePtr t = t"

text \<open>
  The polymorphic block (lines 319-334 and 430-445). The two copies differ in the value
  taken when there is no \<^verbatim>\<open>POLYMORPHIC_VALUE\<close>: \<^verbatim>\<open>e.Search.TableName\<close> for a slice,
  \<^verbatim>\<open>TableName(e, modelValue)\<close> for a struct; it is the argument \<open>dflt\<close>. The result is the
  association type and the relationship.
\<close>

definition polymorphic ::
  "program \<Rightarrow> (string \<rightharpoonup> string) \<Rightarrow> nat list \<Rightarrow> string M \<Rightarrow> string \<Rightarrow> Relationship
     \<Rightarrow> (string \<times> Relationship) M"
where
  "polymorphic p ts toFields dflt associationType rel =
     (if tag ts ''POLYMORPHIC'' \<noteq> [] then
        bnd get_heap (\<lambda>h.
          case GetForeignField p h (tag ts ''POLYMORPHIC'' @ ''Type'') toFields of
            None \<Rightarrow> ret (associationType, rel)
          | Some polymorphicType \<Rightarrow>
              bnd (case ts ''POLYMORPHIC_VALUE'' of Some v \<Rightarrow> ret v | None \<Rightarrow> dflt) (\<lambda>v.
                bnd (heap_upd polymorphicType (\<lambda>f. f\<lparr>IsForeignKey := True\<rparr>)) (\<lambda>_.
                  ret (tag ts ''POLYMORPHIC'',
                       rel\<lparr>PolymorphicType := Name (h polymorphicType),
                            PolymorphicDBName := DBName (h polymorphicType),
                            PolymorphicValue := v\<rparr>))))
      else ret (associationType, rel))"

text \<open>
  The foreign keys and association foreign keys of a relationship (lines 337-374, 452-489
  and 514-555, three copies of one block). \<open>prefix\<close> is the association type, or the name
  of the field for \<^verbatim>\<open>belongs_to\<close>; \<open>flds\<close> are the fields the association keys are looked
  up in; \<open>primaryNames\<close> gives the names of the primary fields and \<open>primaryKey\<close> is the call
  of \<^verbatim>\<open>PrimaryKey\<close>. A \<^verbatim>\<open>range\<close> loop runs over the slice as it was when the loop began, so
  the names appended to \<^verbatim>\<open>associationForeignKeys\<close> in the loop come after the given ones.
\<close>

definition resolveKeys ::
  "program \<Rightarrow> string \<Rightarrow> nat list \<Rightarrow> (error + string list) M \<Rightarrow> (error + string) M
     \<Rightarrow> string list \<Rightarrow> string list \<Rightarrow> (error + string list \<times> string list) M"
where
  "resolveKeys p prefix flds primaryNames primaryKey fks associationForeignKeys =
     (if length fks = 0 then
        (if length associationForeignKeys = 0 then
           bnd_ok primaryNames (\<lambda>names.
             ret (Inr (map (\<lambda>n. prefix @ n) names, names)))
         else
           bnd get_heap (\<lambda>h.
             let found =
               concat (map (\<lambda>k. case GetForeignField p h k flds of
                                   None \<Rightarrow> [] | Some foreignField \<Rightarrow> [Name (h foreignField)])
                         associationForeignKeys)
             in ret (Inr (map (\<lambda>n. prefix @ n) found, associationForeignKeys @ found))))
      else
        (if length associationForeignKeys = 0 then
           bnd get_heap (\<lambda>h.
             let generated =
               concat (map (\<lambda>fk.
                   if take (length prefix) fk = prefix
                      \<and> GetForeignField p h (drop (length prefix) fk) flds \<noteq> None
                   then [drop (length prefix) fk] else [])
                 fks)
             in if length generated = 0 \<and> length fks = 1
                then bnd_ok primaryKey (\<lambda>pk. ret (Inr (fks, [pk])))
                else ret (Inr (fks, generated)))
         else if length fks \<noteq> length associationForeignKeys
         then ret (Inl InvalidForeignKeys)
         else ret (Inr (fks, associationForeignKeys))))"

text \<open>
  The loop that pairs the keys (lines 376-389, 491-504 and 557-571): \<open>ffields\<close> are the
  fields the foreign key is looked up in, \<open>afields\<close> those of the association key.
  \<^verbatim>\<open>associationForeignKeys[idx]\<close> panics when the index is out of range.
\<close>

fun pairKeys ::
  "program \<Rightarrow> nat list \<Rightarrow> nat list \<Rightarrow> string list \<Rightarrow> nat \<Rightarrow> string list \<Rightarrow> Relationship
     \<Rightarrow> Relationship M"
where
  "pairKeys p ffields afields associationForeignKeys idx [] rel = ret rel"
| "pairKeys p ffields afields associationForeignKeys idx (fk # fks) rel =
     bnd get_heap (\<lambda>h.
       case GetForeignField p h fk ffields of
         None \<Rightarrow> pairKeys p ffields afields associationForeignKeys (Suc idx) fks rel
       | Some foreignField \<Rightarrow>
           if idx < length associationForeignKeys then
             (case GetForeignField p h (associationForeignKeys ! idx) afields of
                None \<Rightarrow> pairKeys p ffields afields associationForeignKeys (Suc idx) fks rel
              | Some associationField \<Rightarrow>
                  bnd (heap_upd foreignField (\<lambda>f. f\<lparr>IsForeignKey := True\<rparr>)) (\<lambda>_.
                    pairKeys p ffields afields associationForeignKeys (Suc idx) fks
                      (rel\<lparr>AssociationForeignFieldNames :=
                              AssociationForeignFieldNames rel @ [Name (h associationField)],
                            AssociationForeignDBNames :=
                              AssociationForeignDBNames rel @ [DBName (h associationField)],
                            ForeignFieldNames := ForeignFieldNames rel @ [Name (h foreignField)],
                            ForeignDBNames := ForeignDBNames rel @ [DBName (h foreignField)]\<rparr>)))
           else panic)"

text \<open>The names of the fields at the addresses, as the cells are now.\<close>

definition namesOf :: "nat list \<Rightarrow> (error + string list) M" where
  "namesOf flds = bnd get_heap (\<lambda>h. ret (Inr (map (\<lambda>a. Name (h a)) flds)))"

text \<open>The \<^verbatim>\<open>many_to_many\<close> branch of \<^verbatim>\<open>buildRelationSlice\<close> (lines 262-308).\<close>

fun associationKeys ::
  "(rvalue option \<Rightarrow> (error + ModelStruct) M) \<Rightarrow> program \<Rightarrow> rvalue option \<Rightarrow> string
     \<Rightarrow> string list \<Rightarrow> Relationship \<Rightarrow> (error + Relationship) M"
where
  "associationKeys G p toScope elemName [] rel = ret (Inr rel)"
| "associationKeys G p toScope elemName (name # names) rel =
     bnd_ok (FieldByName G p toScope name) (\<lambda>field.
       bnd get_heap (\<lambda>h.
         associationKeys G p toScope elemName names
           (rel\<lparr>AssociationForeignFieldNames :=
                   AssociationForeignFieldNames rel @ [DBName (h field)],
                 AssociationForeignDBNames :=
                   AssociationForeignDBNames rel
                     @ [ToDBName p elemName @ ''_'' @ DBName (h field)]\<rparr>)))"

definition sourceKeys ::
  "program \<Rightarrow> (nat \<Rightarrow> StructField) \<Rightarrow> string \<Rightarrow> nat list \<Rightarrow> string list \<Rightarrow> Relationship
     \<Rightarrow> Relationship"
where
  "sourceKeys p h refName flds fks rel =
     foldl (\<lambda>rel fk.
         case GetForeignField p h fk flds of
           None \<Rightarrow> rel
         | Some foreignField \<Rightarrow>
             rel\<lparr>ForeignFieldNames := ForeignFieldNames rel @ [DBName (h foreignField)],
                 ForeignDBNames :=
                   ForeignDBNames rel @ [ToDBName p refName @ ''_'' @ DBName (h foreignField)]\<rparr>)
       rel fks"

definition manyToMany ::
  "(rvalue option \<Rightarrow> (error + ModelStruct) M) \<Rightarrow> program \<Rightarrow> string \<Rightarrow> ModelStruct \<Rightarrow> nat
     \<Rightarrow> rvalue option \<Rightarrow> string \<Rightarrow> string list \<Rightarrow> string list \<Rightarrow> (error + unit) M"
where
  "manyToMany G p refType m field toScope elemName fks associationForeignKeys =
     bnd get_heap (\<lambda>h.
       let rel = emptyRelationship\<lparr>Kind := ''many_to_many''\<rparr>;
           fks' = (if length fks = 0 then map (\<lambda>f. DBName (h f)) (PrimaryFields m) else fks);
           rel' = sourceKeys p h (SName (Decl p refType)) (StructFields m) fks' rel
       in
         bnd_ok
           (if length associationForeignKeys = 0 then
              bnd_ok (PrimaryFieldsOf G toScope) (\<lambda>pf.
                bnd get_heap (\<lambda>h'. ret (Inr (map (\<lambda>f. DBName (h' f)) pf))))
            else ret (Inr associationForeignKeys))
           (\<lambda>associationForeignKeys'.
              bnd_ok (associationKeys G p toScope elemName associationForeignKeys' rel')
                (\<lambda>rel''.
                   bnd (heap_upd field (\<lambda>f. f\<lparr>Relationship := Some rel''\<rparr>)) (\<lambda>_.
                     ret (Inr ())))))"

text \<open>The \<^verbatim>\<open>has_many\<close> branch of \<^verbatim>\<open>buildRelationSlice\<close> (lines 310-393).\<close>

definition hasMany ::
  "(rvalue option \<Rightarrow> (error + ModelStruct) M) \<Rightarrow> program \<Rightarrow> engine \<Rightarrow> rvalue option \<Rightarrow> string
     \<Rightarrow> ModelStruct \<Rightarrow> nat \<Rightarrow> rvalue option \<Rightarrow> (string \<rightharpoonup> string) \<Rightarrow> string list \<Rightarrow> string list
     \<Rightarrow> (error + unit) M"
where
  "hasMany G p e modelValue refType m field toScope ts fks associationForeignKeys =
     bnd_ok (G toScope) (\<lambda>ms.
       bnd (polymorphic p ts (StructFields ms)
              (case Search e of None \<Rightarrow> panic | Some t \<Rightarrow> ret t)
              (SName (Decl p refType)) (emptyRelationship\<lparr>Kind := ''has_many''\<rparr>))
         (\<lambda>(associationType, rel).
            bnd_ok (resolveKeys p associationType (StructFields m) (namesOf (PrimaryFields m))
                      (PrimaryKey G p modelValue) fks associationForeignKeys)
              (\<lambda>(fks', associationForeignKeys').
                 bnd (pairKeys p (StructFields ms) (StructFields m) associationForeignKeys' 0
                        fks' rel)
                   (\<lambda>rel'.
                      if length (ForeignFieldNames rel') \<noteq> 0
                      then bnd (heap_upd field (\<lambda>f. f\<lparr>Relationship := Some rel'\<rparr>)) (\<lambda>_.
                             ret (Inr ()))
                      else ret (Inr ())))))"

text \<open>
  \<^verbatim>\<open>buildRelationSlice\<close> (lines 240-399). \<open>refType\<close> is the struct type being resolved, \<open>m\<close>
  the struct as it is when the deferred call runs, \<open>field\<close> the pointer to the field.
\<close>

definition buildRelationSlice ::
  "(rvalue option \<Rightarrow> (error + ModelStruct) M) \<Rightarrow> program \<Rightarrow> engine \<Rightarrow> rvalue option \<Rightarrow> string
     \<Rightarrow> ModelStruct \<Rightarrow> nat \<Rightarrow> (error + unit) M"
where
  "buildRelationSlice G p e modelValue refType m field =
     bnd get_heap (\<lambda>h.
       let ts = TagSettings (h field);
           toScope = Some (New p (FType (Struct (h field))));
           fks = tagList ts ''FOREIGNKEY'';
           associationForeignKeys = tagList ts ''ASSOCIATIONFOREIGNKEY''
       in
         case stripSlicePtr (FType (Struct (h field))) of
           TStruct elemType \<Rightarrow>
             if tag ts ''MANY2MANY'' \<noteq> []
             then manyToMany G p refType m field toScope (SName (Decl p elemType)) fks
                    associationForeignKeys
             else hasMany G p e modelValue refType m field toScope ts fks
                    associationForeignKeys
         | _ \<Rightarrow> bnd (heap_upd field (\<lambda>f. f\<lparr>IsNormal := True\<rparr>)) (\<lambda>_. ret (Inr ())))"

text \<open>
  \<^verbatim>\<open>buildRelationStruct\<close> (lines 406-579): the \<^verbatim>\<open>has_one\<close> block first, and the
  \<^verbatim>\<open>belongs_to\<close> block when it has paired no key.
\<close>

definition belongsTo ::
  "(rvalue option \<Rightarrow> (error + ModelStruct) M) \<Rightarrow> program \<Rightarrow> ModelStruct \<Rightarrow> nat \<Rightarrow> string
     \<Rightarrow> rvalue option \<Rightarrow> nat list \<Rightarrow> string list \<Rightarrow> string list \<Rightarrow> Relationship
     \<Rightarrow> (error + unit) M"
where
  "belongsTo G p m field fieldName toScope toFields tagForeignKeys tagAssociationForeignKeys rel =
     bnd_ok (resolveKeys p fieldName toFields
               (bnd_ok (PrimaryFieldsOf G toScope) namesOf)
               (PrimaryKey G p toScope) tagForeignKeys tagAssociationForeignKeys)
       (\<lambda>(fks, associationForeignKeys).
          bnd (pairKeys p (StructFields m) toFields associationForeignKeys 0 fks rel)
            (\<lambda>rel'.
               if length (ForeignFieldNames rel') \<noteq> 0
               then bnd (heap_upd field
                           (\<lambda>f. f\<lparr>Relationship := Some (rel'\<lparr>Kind := ''belongs_to''\<rparr>)\<rparr>))
                      (\<lambda>_. ret (Inr ()))
               else ret (Inr ())))"

definition buildRelationStruct ::
  "(rvalue option \<Rightarrow> (error + ModelStruct) M) \<Rightarrow> program \<Rightarrow> engine \<Rightarrow> rvalue option \<Rightarrow> string
     \<Rightarrow> ModelStruct \<Rightarrow> nat \<Rightarrow> (error + unit) M"
where
  "buildRelationStruct G p e modelValue refType m field =
     bnd get_heap (\<lambda>h.
       let ts = TagSettings (h field);
           toScope = Some (New p (FType (Struct (h field))))
       in
         bnd_ok (G toScope) (\<lambda>ms.
           let toFields = StructFields ms;
               tagForeignKeys = tagList ts ''FOREIGNKEY'';
               tagAssociationForeignKeys = tagList ts ''ASSOCIATIONFOREIGNKEY''
           in
             bnd (polymorphic p ts toFields (TableName G p e modelValue)
                    (SName (Decl p refType)) emptyRelationship)
               (\<lambda>(associationType, rel).
                  bnd_ok (resolveKeys p associationType (StructFields m)
                            (namesOf (PrimaryFields m)) (PrimaryKey G p modelValue)
                            tagForeignKeys tagAssociationForeignKeys)
                    (\<lambda>(fks, associationForeignKeys).
                       bnd (pairKeys p toFields (StructFields m) associationForeignKeys 0
                              fks rel)
                         (\<lambda>rel'.
                            if length (ForeignFieldNames rel') \<noteq> 0
                            then bnd (heap_upd field
                                        (\<lambda>f. f\<lparr>Relationship :=
                                                 Some (rel'\<lparr>Kind := ''has_one''\<rparr>)\<rparr>))
                                   (\<lambda>_. ret (Inr ()))
                            else belongsTo G p m field (Name (h field)) toScope toFields
                                   tagForeignKeys tagAssociationForeignKeys rel')))))"

section \<open>GetModelStruct (scope.go, lines 90-233)\<close>

text \<open>
  The calls registered with \<^verbatim>\<open>defer\<close>: \<^verbatim>\<open>buildRelationSlice\<close> or \<^verbatim>\<open>buildRelationStruct\<close> on
  the pointer to a field; their other arguments are the same for all of them.
\<close>

datatype deferred = DeferSlice nat | DeferStruct nat

text \<open>The type the value is resolved at (lines 97-106).\<close>

definition refTypeOf :: "rvalue \<Rightarrow> gotype" where
  "refTypeOf v =
     (let t1 = (case VType v of TPtr t \<Rightarrow> t | t \<Rightarrow> t)
      in case t1 of
           TSlice t \<Rightarrow> (case t of TPtr u \<Rightarrow> u | _ \<Rightarrow> t)
         | _ \<Rightarrow> t1)"

text \<open>The default table name (lines 121-132).\<close>

definition defaultTableName :: "program \<Rightarrow> engine \<Rightarrow> string \<Rightarrow> string" where
  "defaultTableName p e refType =
     (case Tabler p (TPtr (TStruct refType)) of
        Some n \<Rightarrow> n
      | None \<Rightarrow>
          (if \<not> SingularTable e then Plural p (ToDBName p (SName (Decl p refType)))
           else ToDBName p (SName (Decl p refType))))"

text \<open>The new field description (lines 137-143).\<close>

definition newField :: "field_decl \<Rightarrow> StructField" where
  "newField fStruct =
     \<lparr>Name = FName fStruct, Names = [FName fStruct], DBName = [],
      TagSettings = FTagSettings fStruct,
      IsIgnored = False, IsPrimaryKey = False, HasDefaultValue = False, IsScanner = False,
      IsNormal = False, IsForeignKey = False, Struct = fStruct, Relationship = None\<rparr>"

text \<open>Lines 149-160: the primary key and default value marks of a field.\<close>

definition markField :: "StructField \<Rightarrow> StructField" where
  "markField field =
     (let f1 = (if TagSettings field ''PRIMARY_KEY'' \<noteq> None
                then field\<lparr>IsPrimaryKey := True\<rparr> else field);
          f2 = (if TagSettings f1 ''DEFAULT'' \<noteq> None
                then f1\<lparr>HasDefaultValue := True\<rparr> else f1)
      in if TagSettings f2 ''AUTO_INCREMENT'' \<noteq> None \<and> \<not> IsPrimaryKey f2
         then f2\<lparr>HasDefaultValue := True\<rparr> else f2)"

text \<open>
  Lines 170-177: a scanner is a normal field, and the tag settings of the fields of a
  scanner struct are written over its own, field after field.
\<close>

definition markScanner :: "program \<Rightarrow> gotype \<Rightarrow> StructField \<Rightarrow> StructField" where
  "markScanner p inType field =
     field\<lparr>IsScanner := True, IsNormal := True,
           TagSettings :=
             (case inType of
                TStruct s \<Rightarrow> foldl (\<lambda>ts f. ts ++ FTagSettings f) (TagSettings field)
                               (SFields (Decl p s))
              | _ \<Rightarrow> TagSettings field)\<rparr>"

text \<open>Lines 213-220: the column name, and the field joins the fields of the struct.\<close>

definition appendField ::
  "program \<Rightarrow> nat \<Rightarrow> ModelStruct \<Rightarrow> deferred list
     \<Rightarrow> (error option \<times> ModelStruct \<times> deferred list) M"
where
  "appendField p field m ds =
     bnd (heap_upd field (\<lambda>f.
            f\<lparr>DBName := (case TagSettings f ''COLUMN'' of
                            Some v \<Rightarrow> v
                          | None \<Rightarrow> ToDBName p (FName (Struct f)))\<rparr>))
       (\<lambda>_. ret (None, m\<lparr>StructFields := StructFields m @ [field]\<rparr>, ds))"

text \<open>Lines 187-197: the fields of an embedded struct, cloned one after the other.\<close>

fun embedFields ::
  "string \<Rightarrow> (string \<rightharpoonup> string) \<Rightarrow> nat list \<Rightarrow> ModelStruct \<Rightarrow> ModelStruct M"
where
  "embedFields fName ts [] m = ret m"
| "embedFields fName ts (subField # subFields) m =
     bnd get_heap (\<lambda>h.
       let c0 = Clone (h subField);
           c1 = c0\<lparr>Names := [fName] @ Names c0\<rparr>;
           c2 = (case ts ''EMBEDDED_PREFIX'' of
                   Some prefix \<Rightarrow> c1\<lparr>DBName := prefix @ DBName c1\<rparr>
                 | None \<Rightarrow> c1)
       in bnd (alloc c2) (\<lambda>c.
            embedFields fName ts subFields
              (m\<lparr>PrimaryFields :=
                    (if IsPrimaryKey c2 then PrimaryFields m @ [c] else PrimaryFields m),
                  StructFields := StructFields m @ [c]\<rparr>)))"

text \<open>
  One round of the loop over the fields (lines 136-221), for an exported field. The result
  holds the error of line 185, if any, with the struct and the deferred calls so far (the
  last registered first).
\<close>

definition getField ::
  "(rvalue option \<Rightarrow> (error + ModelStruct) M) \<Rightarrow> program \<Rightarrow> field_decl \<Rightarrow> ModelStruct
     \<Rightarrow> deferred list \<Rightarrow> (error option \<times> ModelStruct \<times> deferred list) M"
where
  "getField G p fStruct m ds =
     bnd (alloc (newField fStruct)) (\<lambda>field.
       if FTagSettings fStruct ''-'' \<noteq> None then
         bnd (heap_upd field (\<lambda>f. f\<lparr>IsIgnored := True\<rparr>)) (\<lambda>_. appendField p field m ds)
       else
         bnd (heap_upd field markField) (\<lambda>_.
           let m1 = (if FTagSettings fStruct ''PRIMARY_KEY'' \<noteq> None
                     then m\<lparr>PrimaryFields := PrimaryFields m @ [field]\<rparr> else m);
               inType = stripPtr (FType fStruct)
           in
             if Scanner p (TPtr inType) then
               bnd (heap_upd field (markScanner p inType)) (\<lambda>_. appendField p field m1 ds)
             else if inType = time_Time then
               bnd (heap_upd field (\<lambda>f. f\<lparr>IsNormal := True\<rparr>)) (\<lambda>_.
                 appendField p field m1 ds)
             else if FTagSettings fStruct ''EMBEDDED'' \<noteq> None \<or> FAnonymous fStruct then
               bnd (G (Some (New p inType))) (\<lambda>r.
                 case r of
                   Inl err \<Rightarrow> ret (Some err, m1, ds)
                 | Inr ms \<Rightarrow>
                     bnd (embedFields (FName fStruct) (FTagSettings fStruct)
                            (StructFields ms) m1)
                       (\<lambda>m2. ret (None, m2, ds)))
             else
               (case inType of
                  TSlice t \<Rightarrow> appendField p field m1 (DeferSlice field # ds)
                | TStruct s \<Rightarrow> appendField p field m1 (DeferStruct field # ds)
                | _ \<Rightarrow>
                    bnd (heap_upd field (\<lambda>f. f\<lparr>IsNormal := True\<rparr>)) (\<lambda>_.
                      appendField p field m1 ds))))"

text \<open>The loop over the fields of the type (lines 135-222).\<close>

fun getFields ::
  "(rvalue option \<Rightarrow> (error + ModelStruct) M) \<Rightarrow> program \<Rightarrow> field_decl list \<Rightarrow> ModelStruct
     \<Rightarrow> deferred list \<Rightarrow> (error option \<times> ModelStruct \<times> deferred list) M"
where
  "getFields G p [] m ds = ret (None, m, ds)"
| "getFields G p (fStruct # rest) m ds =
     (if IsExported (FName fStruct) then
        bnd (getField G p fStruct m ds) (\<lambda>(err, m', ds').
          case err of
            Some er \<Rightarrow> ret (Some er, m', ds')
          | None \<Rightarrow> getFields G p rest m' ds')
      else getFields G p rest m ds)"

text \<open>Lines 224-229: without a primary field, a field \<open>id\<close> becomes the primary field.\<close>

definition promoteID :: "program \<Rightarrow> ModelStruct \<Rightarrow> ModelStruct M" where
  "promoteID p m =
     (if length (PrimaryFields m) = 0 then
        bnd get_heap (\<lambda>h.
          case GetForeignField p h ''id'' (StructFields m) of
            None \<Rightarrow> ret m
          | Some field \<Rightarrow>
              bnd (heap_upd field (\<lambda>f. f\<lparr>IsPrimaryKey := True\<rparr>)) (\<lambda>_.
                ret (m\<lparr>PrimaryFields := PrimaryFields m @ [field]\<rparr>)))
      else ret m)"

text \<open>
  The deferred calls run when the function returns, the last registered first. What they
  return (their error) is dropped; a panic is not.
\<close>

fun runDeferred ::
  "(rvalue option \<Rightarrow> (error + ModelStruct) M) \<Rightarrow> program \<Rightarrow> engine \<Rightarrow> rvalue option \<Rightarrow> string
     \<Rightarrow> ModelStruct \<Rightarrow> deferred list \<Rightarrow> unit M"
where
  "runDeferred G p e value refType m [] = ret ()"
| "runDeferred G p e value refType m (DeferSlice field # ds) =
     bnd (buildRelationSlice G p e value refType m field) (\<lambda>_.
       runDeferred G p e value refType m ds)"
| "runDeferred G p e value refType m (DeferStruct field # ds) =
     bnd (buildRelationStruct G p e value refType m field) (\<lambda>_.
       runDeferred G p e value refType m ds)"

text \<open>
  The body of \<^verbatim>\<open>GetModelStruct\<close>; \<open>G\<close> stands for the calls of \<^verbatim>\<open>GetModelStruct\<close> inside it.
\<close>

definition GetModelStruct_body ::
  "(rvalue option \<Rightarrow> (error + ModelStruct) M) \<Rightarrow> program \<Rightarrow> engine \<Rightarrow> rvalue option
     \<Rightarrow> (error + ModelStruct) M"
where
  "GetModelStruct_body G p e value =
     (case value of
        None \<Rightarrow> ret (Inl NilValue)
      | Some v \<Rightarrow>
          (case refTypeOf v of
             TStruct refType \<Rightarrow>
               bnd (StructMap_Get refType) (\<lambda>cached.
                 case cached of
                   Some ms \<Rightarrow> ret (Inr ms)
                 | None \<Rightarrow>
                     bnd (getFields G p (SFields (Decl p refType))
                            \<lparr>ModelType = refType,
                             DefaultTableName = defaultTableName p e refType,
                             StructFields = [], PrimaryFields = []\<rparr> [])
                       (\<lambda>(err, m, ds).
                          case err of
                            Some er \<Rightarrow>
                              bnd (runDeferred G p e value refType m ds) (\<lambda>_. ret (Inl er))
                          | None \<Rightarrow>
                              bnd (promoteID p m) (\<lambda>m'.
                                bnd (StructMap_Set refType m') (\<lambda>_.
                                  bnd (runDeferred G p e value refType m' ds) (\<lambda>_.
                                    ret (Inr m'))))))
           | _ \<Rightarrow> ret (Inl NotSupported)))"

text \<open>
  \<^verbatim>\<open>GetModelStruct\<close>, with fuel for the depth of the calls: with none left the outcome is
  \<open>Timeout\<close>.
\<close>

primrec GetModelStruct ::
  "nat \<Rightarrow> program \<Rightarrow> engine \<Rightarrow> rvalue option \<Rightarrow> (error + ModelStruct) M"
where
  "GetModelStruct 0 p e = (\<lambda>value s. Timeout)"
| "GetModelStruct (Suc n) p e = GetModelStruct_body (GetModelStruct n p e) p e"

section \<open>Programs for the examples\<close>

text \<open>
  Modelled from the spec: \<^verbatim>\<open>util.ToDBName\<close> is not among the sources; the spec calls it "a
  snake-case transform". On the one-word names of the examples below that is the name in
  lower case, with \<open>ID\<close> giving \<open>id\<close>.
\<close>

definition lower :: "string \<Rightarrow> string" where
  "lower s =
     map (\<lambda>c. case map_of (zip ''ABCDEFGHIJKLMNOPQRSTUVWXYZ'' ''abcdefghijklmnopqrstuvwxyz'') c of
                 Some l \<Rightarrow> l
               | None \<Rightarrow> c) s"

definition fld :: "string \<Rightarrow> gotype \<Rightarrow> (string \<rightharpoonup> string) \<Rightarrow> field_decl" where
  "fld n t ts = \<lparr>FName = n, FType = t, FAnonymous = False, FTagSettings = ts\<rparr>"

definition intT :: gotype where
  "intT = TOther ''int''"

text \<open>
  \<^verbatim>\<open>
  type Pet     struct { ID int; OwnerID int }
  type Tag     struct { Label string }
  type Owner   struct { ID int; Pets []Pet `gorm:"foreignkey:A,B;associationforeignkey:C"` }
  type Keeper  struct { ID int; Pet Pet `gorm:"foreignkey:A,B;associationforeignkey:C"` }
  type Club    struct { ID int
                        Members []Pet `gorm:"many2many:x;foreignkey:ID,ID;associationforeignkey:ID"` }
  type Shelter struct { ID int; Pet Pet }
  type Board   struct { Tags []Tag `gorm:"many2many:board_tags"` }
  type Two     struct { A int `gorm:"primary_key"`; B int `gorm:"primary_key"` }
  type Base    struct { ID int; Note string }
  type Doc     struct { Title string; Base Base `gorm:"embedded;embedded_prefix:base_"`; Size int }
  \<close>
\<close>

definition shapes :: "string \<Rightarrow> struct_decl" where
  "shapes n =
     (if n = ''Pet'' then
        \<lparr>SName = ''Pet'', SFields = [fld ''ID'' intT Map.empty, fld ''OwnerID'' intT Map.empty]\<rparr>
      else if n = ''Tag'' then
        \<lparr>SName = ''Tag'', SFields = [fld ''Label'' (TOther ''string'') Map.empty]\<rparr>
      else if n = ''Owner'' then
        \<lparr>SName = ''Owner'', SFields =
           [fld ''ID'' intT Map.empty,
            fld ''Pets'' (TSlice (TStruct ''Pet''))
              [''FOREIGNKEY'' \<mapsto> ''A,B'', ''ASSOCIATIONFOREIGNKEY'' \<mapsto> ''C'']]\<rparr>
      else if n = ''Keeper'' then
        \<lparr>SName = ''Keeper'', SFields =
           [fld ''ID'' intT Map.empty,
            fld ''Pet'' (TStruct ''Pet'')
              [''FOREIGNKEY'' \<mapsto> ''A,B'', ''ASSOCIATIONFOREIGNKEY'' \<mapsto> ''C'']]\<rparr>
      else if n = ''Club'' then
        \<lparr>SName = ''Club'', SFields =
           [fld ''ID'' intT Map.empty,
            fld ''Members'' (TSlice (TStruct ''Pet''))
              [''MANY2MANY'' \<mapsto> ''x'', ''FOREIGNKEY'' \<mapsto> ''ID,ID'',
               ''ASSOCIATIONFOREIGNKEY'' \<mapsto> ''ID'']]\<rparr>
      else if n = ''Shelter'' then
        \<lparr>SName = ''Shelter'', SFields =
           [fld ''ID'' intT Map.empty, fld ''Pet'' (TStruct ''Pet'') Map.empty]\<rparr>
      else if n = ''Board'' then
        \<lparr>SName = ''Board'', SFields =
           [fld ''Tags'' (TSlice (TStruct ''Tag'')) [''MANY2MANY'' \<mapsto> ''board_tags'']]\<rparr>
      else if n = ''Two'' then
        \<lparr>SName = ''Two'', SFields =
           [fld ''A'' intT [''PRIMARY_KEY'' \<mapsto> ''PRIMARY_KEY''],
            fld ''B'' intT [''PRIMARY_KEY'' \<mapsto> ''PRIMARY_KEY'']]\<rparr>
      else if n = ''Base'' then
        \<lparr>SName = ''Base'', SFields =
           [fld ''ID'' intT Map.empty, fld ''Note'' (TOther ''string'') Map.empty]\<rparr>
      else if n = ''Doc'' then
        \<lparr>SName = ''Doc'', SFields =
           [fld ''Title'' (TOther ''string'') Map.empty,
            fld ''Base'' (TStruct ''Base'')
              [''EMBEDDED'' \<mapsto> ''EMBEDDED'', ''EMBEDDED_PREFIX'' \<mapsto> ''base_''],
            fld ''Size'' intT Map.empty]\<rparr>
      else \<lparr>SName = n, SFields = []\<rparr>)"

definition prog :: program where
  "prog =
     \<lparr>Decl = shapes, Scanner = (\<lambda>t. False), Tabler = (\<lambda>t. None), DBTabler = (\<lambda>t. None),
      ToDBName = lower, Plural = (\<lambda>s. s @ ''s'')\<rparr>"

definition eng :: engine where
  "eng = \<lparr>Dialect = ql_dialect, SingularTable = False, Search = Some []\<rparr>"

text \<open>The state of a fresh engine: no cell allocated, nothing cached.\<close>

definition fresh :: state where
  "fresh = \<lparr>Heap = (\<lambda>a. newField (fld [] (TOther []) Map.empty)), Next = 0, StructMap = Map.empty\<rparr>"

text \<open>A pointer to a zero value of a struct type of the program, as \<^verbatim>\<open>&Owner{}\<close>.\<close>

definition ptrTo :: "string \<Rightarrow> rvalue option" where
  "ptrTo n = Some (New prog (TStruct n))"

text \<open>A state with one cell, at address 0, and a struct with this one field.\<close>

definition oneCell :: "StructField \<Rightarrow> state" where
  "oneCell f = fresh\<lparr>Heap := (Heap fresh)(0 := f), Next := 1\<rparr>"

definition oneField :: "string \<Rightarrow> ModelStruct" where
  "oneField n = \<lparr>ModelType = n, DefaultTableName = [], StructFields = [0], PrimaryFields = []\<rparr>"

section \<open>What a call may change\<close>

text \<open>
  Two field descriptions are the same but for the mark of a foreign key; they are the same
  description when they differ at most in that mark, in \<open>IsNormal\<close> and in the relationship.
\<close>

definition sameButForeignKey :: "StructField \<Rightarrow> StructField \<Rightarrow> bool" where
  "sameButForeignKey f g = (f\<lparr>IsForeignKey := False\<rparr> = g\<lparr>IsForeignKey := False\<rparr>)"

definition sameDescription :: "StructField \<Rightarrow> StructField \<Rightarrow> bool" where
  "sameDescription f g =
     (f\<lparr>IsForeignKey := False, IsNormal := False, Relationship := None\<rparr>
        = g\<lparr>IsForeignKey := False, IsNormal := False, Relationship := None\<rparr>)"

text \<open>
  \<open>touches A s s'\<close>: from \<open>s\<close> to \<open>s'\<close> cells were allocated, entries were added to the cache
  and none was changed, and the cells of \<open>s\<close> are the same but for the mark of a foreign
  key, those at the addresses in \<open>A\<close> the same descriptions.
\<close>

definition touches :: "nat set \<Rightarrow> state \<Rightarrow> state \<Rightarrow> bool" where
  "touches A s s' =
     (Next s \<le> Next s'
      \<and> (\<forall>k m. StructMap s k = Some m \<longrightarrow> StructMap s' k = Some m)
      \<and> (\<forall>a. a < Next s \<longrightarrow>
            (if a \<in> A then sameDescription (Heap s a) (Heap s' a)
             else sameButForeignKey (Heap s a) (Heap s' a))))"

definition frame :: "nat set \<Rightarrow> 'a M \<Rightarrow> bool" where
  "frame A f = (\<forall>s x s'. f s = Ret (x, s') \<longrightarrow> touches A s s')"

text \<open>
  \<open>keeps s0 f Q\<close>: run from a state that \<open>s0\<close> has grown into without a change to the cells
  of \<open>s0\<close>, \<open>f\<close> leaves such a state again, and its result satisfies \<open>Q\<close>.
\<close>

definition keeps :: "state \<Rightarrow> 'a M \<Rightarrow> ('a \<Rightarrow> bool) \<Rightarrow> bool" where
  "keeps s0 f Q =
     (\<forall>s x s'. touches {} s0 s \<longrightarrow> f s = Ret (x, s') \<longrightarrow> touches {} s0 s' \<and> Q x)"

text \<open>The addresses a deferred call and a list of them work on.\<close>

fun deferredField :: "deferred \<Rightarrow> nat" where
  "deferredField (DeferSlice field) = field"
| "deferredField (DeferStruct field) = field"

section \<open>Properties of Split and Join\<close>

lemma Split_not_Nil: "Split s c \<noteq> []"
  by (induction s) auto

lemma Join_Split: "Join (Split s c) [c] = s"
proof (induction s)
  case Nil
  then show ?case by simp
next
  case (Cons a s)
  obtain y ys where sp: "Split s c = y # ys"
    using Split_not_Nil [of s c] by (cases "Split s c") auto
  show ?case using Cons sp by (cases ys) auto
qed

lemma Split_no_sep: "x \<in> set (Split s c) \<Longrightarrow> c \<notin> set x"
proof (induction s arbitrary: x)
  case Nil
  then show ?case by simp
next
  case (Cons a s)
  then show ?case
    using Split_not_Nil [of s c] by (cases "Split s c") (auto split: if_splits)
qed

lemma length_Split: "length (Split s c) = Suc (count_list s c)"
  using Split_not_Nil [of _ c] by (induction s) auto

lemma Split_append_no_sep:
  "c \<notin> set x \<Longrightarrow> Split (x @ s) c = (x @ hd (Split s c)) # tl (Split s c)"
  by (induction x) (auto simp: Split_not_Nil)

lemma Split_Join:
  "segs \<noteq> [] \<Longrightarrow> \<forall>s\<in>set segs. c \<notin> set s \<Longrightarrow> Split (Join segs [c]) c = segs"
proof (induction segs)
  case Nil
  then show ?case by simp
next
  case (Cons x segs)
  show ?case
  proof (cases segs)
    case Nil
    then show ?thesis
      using Cons.prems Split_append_no_sep [of c x "[]"] by simp
  next
    case (Cons y ys)
    then show ?thesis
      using Cons.prems Cons.IH Split_append_no_sep [of c x "c # Join segs [c]"] by simp
  qed
qed

lemma ql_dialect_sel [simp]:
  "DQuote ql_dialect s = [CHR 0x22] @ s @ [CHR 0x22]"
  "BindVar ql_dialect n = CHR ''$'' # itoa n"
  by (simp_all add: ql_dialect_def)

lemma itoa_digit: "n < 10 \<Longrightarrow> itoa n = [''0123456789'' ! n]"
  by (simp add: itoa.simps)

section \<open>Quote\<close>

text \<open>
  C8. A string with a dot is split on its dots, every piece goes through the dialect's
  quote function and the quoted pieces are joined with a dot again; the pieces hold no dot,
  there is one more piece than there are dots, and joined as they are they give the string
  back. A string without a dot goes through the quote function whole.
\<close>

theorem Quote_by_segments:
  "(CHR ''.'' \<in> set str \<longrightarrow>
      Quote d str = Join (map (DQuote d) (Split str CHR ''.'')) ''.''
      \<and> Join (Split str CHR ''.'') ''.'' = str
      \<and> (\<forall>s\<in>set (Split str CHR ''.''). CHR ''.'' \<notin> set s)
      \<and> length (Split str CHR ''.'') = Suc (count_list str CHR ''.''))
   \<and> (CHR ''.'' \<notin> set str \<longrightarrow> Quote d str = DQuote d str)"
  using Join_Split [of str "CHR ''.''"] Split_no_sep [of _ str "CHR ''.''"]
  by (auto simp: Quote_def length_Split)

theorem Quote_by_segments_witness:
  "CHR ''.'' \<in> set ''one.two''
   \<and> Quote ql_dialect ''one.two''
       = [CHR 0x22] @ ''one'' @ [CHR 0x22] @ ''.'' @ [CHR 0x22] @ ''two'' @ [CHR 0x22]
   \<and> Split ''one.two'' CHR ''.'' = [''one'', ''two'']
   \<and> CHR ''.'' \<notin> set ''one''
   \<and> Quote ql_dialect ''one'' = [CHR 0x22] @ ''one'' @ [CHR 0x22]"
  using Quote_by_segments [of "''one.two''" ql_dialect] Quote_by_segments [of "''one''" ql_dialect]
  by simp

text \<open>
  Quoting the pieces and joining them is the same as quoting a dotted name piece by piece:
  for two or more dot-free pieces, \<open>Quote\<close> of their join is the join of the quoted pieces.
\<close>

lemma Quote_Join:
  assumes "2 \<le> length segs" and "\<forall>s\<in>set segs. CHR ''.'' \<notin> set s"
  shows "Quote d (Join segs ''.'') = Join (map (DQuote d) segs) ''.''"
proof -
  obtain x y ys where segs: "segs = x # y # ys"
    using assms(1) by (cases segs; cases "tl segs") auto
  have "CHR ''.'' \<in> set (Join segs ''.'')"
    by (simp add: segs)
  moreover have "Split (Join segs ''.'') CHR ''.'' = segs"
    using Split_Join [of segs "CHR ''.''"] assms(2) segs by simp
  ultimately show ?thesis
    by (simp add: Quote_def)
qed

section \<open>AddToVars\<close>

lemma AddToVars_appends:
  "AddToVars d v vars = Some (s, vars') \<Longrightarrow> vars' = vars @ leaves v"
  "AddToVars_args d exp args vars = Some (s, vars') \<Longrightarrow> vars' = vars @ concat (map leaves args)"
proof (induction d v vars and d exp args vars arbitrary: s vars' and s vars'
    rule: AddToVars_AddToVars_args.induct)
  case (5 d exp arg args vars)
  from "5.prems" obtain ph v1 where a: "AddToVars d arg vars = Some (ph, v1)"
    and b: "AddToVars_args d (Replace1 exp CHR ''?'' ph) args v1 = Some (s, vars')"
    by (auto split: option.splits)
  from "5.IH"(1) [OF a] have "v1 = vars @ leaves arg" .
  moreover from "5.IH"(2) [OF a refl b] have "vars' = v1 @ concat (map leaves args)" .
  ultimately show ?case by simp
qed auto

lemma Replace1_append: "c \<notin> set pre \<Longrightarrow> Replace1 (pre @ s) c new = pre @ Replace1 s c new"
  by (induction pre) auto

lemma bind_left_to_right_step:
  "CHR ''?'' \<notin> set p \<Longrightarrow>
   \<exists>pre rest. Replace1 s CHR ''?'' p = pre @ rest \<and> CHR ''?'' \<notin> set pre
      \<and> bind_left_to_right s (p # ps) = pre @ bind_left_to_right rest ps"
proof (induction s)
  case Nil
  then show ?case by simp
next
  case (Cons c s)
  show ?case
  proof (cases "c = CHR ''?''")
    case True
    then show ?thesis
      using Cons.prems by (intro exI [of _ p] exI [of _ s]) simp
  next
    case False
    from Cons obtain pre rest where
      "Replace1 s CHR ''?'' p = pre @ rest" "CHR ''?'' \<notin> set pre"
      "bind_left_to_right s (p # ps) = pre @ bind_left_to_right rest ps"
      by blast
    then show ?thesis
      using False by (intro exI [of _ "c # pre"] exI [of _ rest]) simp
  qed
qed

lemma AddToVars_args_literals:
  "\<forall>n. CHR ''?'' \<notin> set (BindVar d n) \<Longrightarrow> CHR ''?'' \<notin> set pre \<Longrightarrow>
   AddToVars_args d (pre @ rest) (map Lit vs) vars =
     Some (pre @ bind_left_to_right rest
             (map (BindVar d) [Suc (length vars) ..< Suc (length vars + length vs)]),
           vars @ map Lit vs)"
proof (induction vs arbitrary: pre rest vars)
  case Nil
  then show ?case by (cases rest) auto
next
  case (Cons v vs)
  let ?p = "BindVar d (Suc (length vars))"
  let ?ps = "map (BindVar d) [Suc (Suc (length vars)) ..< Suc (Suc (length vars + length vs))]"
  have np: "CHR ''?'' \<notin> set ?p"
    using Cons.prems by simp
  from bind_left_to_right_step [OF np, of rest ?ps]
  obtain pre' rest' where r: "Replace1 rest CHR ''?'' ?p = pre' @ rest'"
    "CHR ''?'' \<notin> set pre'"
    "bind_left_to_right rest (?p # ?ps) = pre' @ bind_left_to_right rest' ?ps"
    by blast
  have up: "[Suc (length vars) ..< Suc (length vars + length (v # vs))]
      = Suc (length vars) # [Suc (Suc (length vars)) ..< Suc (Suc (length vars + length vs))]"
    using upt_conv_Cons [of "Suc (length vars)" "Suc (Suc (length vars + length vs))"] by simp
  have "AddToVars_args d (pre @ rest) (map Lit (v # vs)) vars
      = AddToVars_args d ((pre @ pre') @ rest') (map Lit vs) (vars @ [Lit v])"
    using Cons.prems r by (simp add: Replace1_append)
  also have "\<dots> = Some ((pre @ pre') @ bind_left_to_right rest'
        (map (BindVar d)
           [Suc (length (vars @ [Lit v])) ..< Suc (length (vars @ [Lit v]) + length vs)]),
        (vars @ [Lit v]) @ map Lit vs)"
    using Cons.prems r by (intro Cons.IH) auto
  finally show ?case
    using r up by simp
qed

text \<open>
  C7, as the code has it. A value that is no expression is appended at the end of the bound
  values and the placeholder of the new length is returned. An expression whose arguments
  are no expressions appends them in their order, and, when no placeholder of the dialect
  holds a \<open>?\<close>, its text comes back with the \<open>?\<close> replaced from the left by the placeholders
  of the positions taken. Whatever the value, a call that returns has only appended: the
  new list is the old one followed by the literal values of the argument, in order.
\<close>

theorem AddToVars_appends_and_binds:
  "AddToVars d (Lit v) vars = Some (BindVar d (Suc (length vars)), vars @ [Lit v])
   \<and> ((\<forall>n. CHR ''?'' \<notin> set (BindVar d n)) \<longrightarrow>
        AddToVars d (Expr q (map Lit vs)) vars =
          Some (bind_left_to_right q
                  (map (BindVar d) [Suc (length vars) ..< Suc (length vars + length vs)]),
                vars @ map Lit vs))
   \<and> (AddToVars d w vars = Some (s, vars') \<longrightarrow> vars' = vars @ leaves w)"
  using AddToVars_args_literals [of d "[]" q vs vars] AddToVars_appends(1) [of d w vars s vars']
  by simp

theorem AddToVars_appends_and_binds_witness:
  "AddToVars ql_dialect (Lit (7::nat)) [Lit 5] = Some (''$2'', [Lit 5, Lit 7])
   \<and> AddToVars ql_dialect (Expr ''a = ? AND b = ?'' [Lit 8, Lit 9]) [Lit (5::nat)]
       = Some (''a = $2 AND b = $3'', [Lit 5, Lit 8, Lit 9])
   \<and> leaves (Expr ''a = ? AND b = ?'' [Lit 8, Lit (9::nat)]) = [Lit 8, Lit 9]"
proof -
  have q: "\<forall>n. CHR ''?'' \<notin> set (BindVar ql_dialect n)"
  proof
    fix n :: nat
    have digit: "''0123456789'' ! k \<noteq> CHR ''?''" if "k < 10" for k :: nat
    proof -
      have "''0123456789'' ! k \<in> set ''0123456789''"
        using that by (intro nth_mem) simp
      then show ?thesis by auto
    qed
    have "CHR ''?'' \<notin> set (itoa n)"
    proof (induction n rule: itoa.induct)
      case (1 n)
      then show ?case
        using digit [of n] digit [of "n mod 10"] by (subst itoa.simps) auto
    qed
    then show "CHR ''?'' \<notin> set (BindVar ql_dialect n)"
      by simp
  qed
  show ?thesis
    using q
      AddToVars_appends_and_binds [of ql_dialect 7 "[Lit (5::nat)]" "''a = ? AND b = ?''"
        "[8, 9]" "Expr ''a = ? AND b = ?'' [Lit 8, Lit 9]" "''a = $2 AND b = $3''"
        "[Lit 5, Lit 8, Lit 9]"]
    by (simp add: itoa_digit upt_rec)
qed

text \<open>
  The claim as the spec words it fails: an argument that is itself an expression appends
  one entry for each of its own literal arguments, here none for one argument.
\<close>

theorem AddToVars_nested_counterexample:
  "AddToVars ql_dialect (Expr ''x = ?'' [Expr ''NOW()'' []]) ([] :: nat gvalue list)
     = Some (''x = NOW()'', [])
   \<and> length ([] :: nat gvalue list)
       \<noteq> length ([] :: nat gvalue list) + length [Expr ''NOW()'' ([] :: nat gvalue list)]"
  by simp

section \<open>Conditions on an empty collection of primary keys\<close>

text \<open>
  C9. A condition on an empty collection of primary keys compiles to the empty string and
  leaves the bound values as they are, in the positive and in the negated form.
\<close>

theorem empty_primary_keys_no_clause:
  "Where_primary_keys d quotedTable pk [] vars = Some ('''', vars)
   \<and> Not_primary_keys d quotedTable pk [] vars = Some ('''', vars)"
  by (simp add: Where_primary_keys_def Not_primary_keys_def primary_keys_sql_def)

text \<open>The compilation of a collection with keys, on the inputs of the builder's tests.\<close>

lemma primary_keys_sql_tests:
  "Where_primary_keys ql_dialect (Quote ql_dialect ''users'') ''id''
      [Lit (20::nat), Lit 21, Lit 22] []
     = Some (''('' @ [CHR 0x22] @ ''users'' @ [CHR 0x22] @ ''.'' @ [CHR 0x22] @ ''id''
              @ [CHR 0x22] @ '' IN ($1,$2,$3))'', [Lit 20, Lit 21, Lit 22])"
  "Not_primary_keys ql_dialect (Quote ql_dialect ''users'') ''id''
      [Lit (1::nat), Lit 2, Lit 3] []
     = Some (''('' @ [CHR 0x22] @ ''users'' @ [CHR 0x22] @ ''.'' @ [CHR 0x22] @ ''id''
              @ [CHR 0x22] @ '' NOT IN ($1,$2,$3))'', [Lit 1, Lit 2, Lit 3])"
  by (simp_all add: Where_primary_keys_def Not_primary_keys_def primary_keys_sql_def
      Quote_def itoa_digit)

section \<open>Frames: what the calls leave as it is\<close>

lemmas monad_defs = ret_def bnd_def bnd_ok_def panic_def get_heap_def heap_upd_def alloc_def
  StructMap_Get_def StructMap_Set_def

lemma sameButForeignKey_refl [simp]: "sameButForeignKey f f"
  by (simp add: sameButForeignKey_def)

lemma sameDescription_refl [simp]: "sameDescription f f"
  by (simp add: sameDescription_def)

lemma sameButForeignKey_trans:
  "sameButForeignKey f g \<Longrightarrow> sameButForeignKey g h \<Longrightarrow> sameButForeignKey f h"
  by (simp add: sameButForeignKey_def)

lemma sameDescription_trans:
  "sameDescription f g \<Longrightarrow> sameDescription g h \<Longrightarrow> sameDescription f h"
  by (simp add: sameDescription_def)

lemma sameButForeignKey_sameDescription: "sameButForeignKey f g \<Longrightarrow> sameDescription f g"
proof -
  assume "sameButForeignKey f g"
  then have eq: "f\<lparr>IsForeignKey := False\<rparr> = g\<lparr>IsForeignKey := False\<rparr>"
    by (simp add: sameButForeignKey_def)
  from arg_cong [OF eq, of "\<lambda>x. x\<lparr>IsNormal := False, Relationship := None\<rparr>"]
  show ?thesis
    by (simp add: sameDescription_def)
qed

lemma touches_refl [simp]: "touches A s s"
  by (simp add: touches_def)

lemma touchesI:
  assumes "Next s \<le> Next s'"
    and "\<And>k m. StructMap s k = Some m \<Longrightarrow> StructMap s' k = Some m"
    and "\<And>a. a < Next s \<Longrightarrow> a \<in> A \<Longrightarrow> sameDescription (Heap s a) (Heap s' a)"
    and "\<And>a. a < Next s \<Longrightarrow> a \<notin> A \<Longrightarrow> sameButForeignKey (Heap s a) (Heap s' a)"
  shows "touches A s s'"
  using assms by (simp add: touches_def)

lemma touches_Next: "touches A s s' \<Longrightarrow> Next s \<le> Next s'"
  by (simp add: touches_def)

lemma touches_StructMap: "touches A s s' \<Longrightarrow> StructMap s k = Some m \<Longrightarrow> StructMap s' k = Some m"
  by (simp add: touches_def)

lemma touches_in: "touches A s s' \<Longrightarrow> a < Next s \<Longrightarrow> a \<in> A \<Longrightarrow> sameDescription (Heap s a) (Heap s' a)"
  unfolding touches_def by (elim conjE allE [of _ a]) simp

lemma touches_out: "touches A s s' \<Longrightarrow> a < Next s \<Longrightarrow> a \<notin> A \<Longrightarrow> sameButForeignKey (Heap s a) (Heap s' a)"
  unfolding touches_def by (elim conjE allE [of _ a]) simp

lemma touches_trans:
  assumes 1: "touches A s s1" and 2: "touches A s1 s2"
  shows "touches A s s2"
proof (rule touchesI)
  show "Next s \<le> Next s2"
    using touches_Next [OF 1] touches_Next [OF 2] by simp
next
  fix k m assume "StructMap s k = Some m"
  then show "StructMap s2 k = Some m"
    using touches_StructMap [OF 1] touches_StructMap [OF 2] by simp
next
  fix a assume a: "a < Next s" "a \<in> A"
  then have "a < Next s1" using touches_Next [OF 1] by simp
  then show "sameDescription (Heap s a) (Heap s2 a)"
    using a touches_in [OF 1, of a] touches_in [OF 2, of a] sameDescription_trans by blast
next
  fix a assume a: "a < Next s" "a \<notin> A"
  then have "a < Next s1" using touches_Next [OF 1] by simp
  then show "sameButForeignKey (Heap s a) (Heap s2 a)"
    using a touches_out [OF 1, of a] touches_out [OF 2, of a] sameButForeignKey_trans by blast
qed

lemma touches_mono:
  assumes "A \<subseteq> B" and 1: "touches A s s'"
  shows "touches B s s'"
proof (rule touchesI)
  show "Next s \<le> Next s'" using touches_Next [OF 1] .
next
  fix k m assume "StructMap s k = Some m"
  then show "StructMap s' k = Some m" using touches_StructMap [OF 1] by simp
next
  fix a assume a: "a < Next s" "a \<in> B"
  show "sameDescription (Heap s a) (Heap s' a)"
    using a touches_in [OF 1, of a] touches_out [OF 1, of a] sameButForeignKey_sameDescription
    by (cases "a \<in> A") auto
next
  fix a assume a: "a < Next s" "a \<notin> B"
  then show "sameButForeignKey (Heap s a) (Heap s' a)"
    using touches_out [OF 1, of a] assms(1) by auto
qed

subsection \<open>Rules for frames\<close>

lemma frameI: "(\<And>s x s'. f s = Ret (x, s') \<Longrightarrow> touches A s s') \<Longrightarrow> frame A f"
  by (simp add: frame_def)

lemma frameD: "frame A f \<Longrightarrow> f s = Ret (x, s') \<Longrightarrow> touches A s s'"
  by (simp add: frame_def)

lemma frame_mono: "A \<subseteq> B \<Longrightarrow> frame A f \<Longrightarrow> frame B f"
  unfolding frame_def using touches_mono by blast

lemma frame_ret [intro!]: "frame A (ret x)"
  by (simp add: frame_def ret_def)

lemma frame_panic [intro!]: "frame A panic"
  by (simp add: frame_def panic_def)

lemma frame_get_heap [intro!]: "frame A get_heap"
  by (simp add: frame_def get_heap_def)

lemma frame_StructMap_Get [intro!]: "frame A (StructMap_Get k)"
  by (simp add: frame_def StructMap_Get_def)

lemma bnd_RetE:
  assumes "bnd m k s = Ret (y, s')"
  obtains x s1 where "m s = Ret (x, s1)" and "k x s1 = Ret (y, s')"
  using assms by (auto simp: bnd_def split: outcome.splits)

lemma frame_bnd [intro!]:
  assumes "frame A m" and "\<And>x. frame A (k x)"
  shows "frame A (bnd m k)"
proof (rule frameI)
  fix s y s' assume "bnd m k s = Ret (y, s')"
  then obtain x s1 where "m s = Ret (x, s1)" "k x s1 = Ret (y, s')"
    by (rule bnd_RetE)
  then show "touches A s s'"
    using frameD [OF assms(1)] frameD [OF assms(2)] touches_trans by blast
qed

lemma frame_bnd_ok [intro!]:
  assumes "frame A m" and "\<And>x. frame A (k x)"
  shows "frame A (bnd_ok m k)"
  unfolding bnd_ok_def using assms by (auto split: sum.splits)

lemma frame_heap_upd_fk [intro!]: "frame A (heap_upd a (\<lambda>f. f\<lparr>IsForeignKey := True\<rparr>))"
  by (rule frameI) (auto simp: heap_upd_def touches_def sameButForeignKey_def sameDescription_def)

lemma frame_heap_upd_Relationship [intro!]:
  "a \<in> A \<Longrightarrow> frame A (heap_upd a (\<lambda>f. f\<lparr>Relationship := r\<rparr>))"
  by (rule frameI) (auto simp: heap_upd_def touches_def sameButForeignKey_def sameDescription_def)

lemma frame_heap_upd_IsNormal [intro!]:
  "a \<in> A \<Longrightarrow> frame A (heap_upd a (\<lambda>f. f\<lparr>IsNormal := b\<rparr>))"
  by (rule frameI) (auto simp: heap_upd_def touches_def sameButForeignKey_def sameDescription_def)


subsection \<open>The frames of the calls of scope.go\<close>

lemma frame_Fields: "\<forall>v. frame A (G v) \<Longrightarrow> frame A (Fields G value)"
  unfolding Fields_def by auto

lemma frame_FieldByName: "\<forall>v. frame A (G v) \<Longrightarrow> frame A (FieldByName G p value name)"
  unfolding FieldByName_def by (auto intro!: frame_Fields)

lemma frame_PrimaryFieldsOf: "\<forall>v. frame A (G v) \<Longrightarrow> frame A (PrimaryFieldsOf G value)"
  unfolding PrimaryFieldsOf_def by (auto intro!: frame_Fields)

lemma frame_PrimaryField: "\<forall>v. frame A (G v) \<Longrightarrow> frame A (PrimaryField G p value)"
  unfolding PrimaryField_def
  by (auto intro!: frame_FieldByName frame_PrimaryFieldsOf split: list.splits)

lemma frame_PrimaryKey: "\<forall>v. frame A (G v) \<Longrightarrow> frame A (PrimaryKey G p value)"
  unfolding PrimaryKey_def by (auto intro!: frame_PrimaryField)

lemma frame_TableName: "\<forall>v. frame A (G v) \<Longrightarrow> frame A (TableName G p e value)"
  unfolding TableName_def by (auto split: option.splits sum.splits)

lemma frame_polymorphic:
  "frame A dflt \<Longrightarrow> frame A (polymorphic p ts toFields dflt associationType rel)"
  unfolding polymorphic_def by (auto split: option.splits)

lemma frame_resolveKeys:
  "frame A primaryNames \<Longrightarrow> frame A primaryKey \<Longrightarrow>
   frame A (resolveKeys p prefix flds primaryNames primaryKey fks afks)"
  unfolding resolveKeys_def by (auto simp: Let_def)

lemma frame_pairKeys: "frame A (pairKeys p ffields afields afks idx fks rel)"
  by (induction p ffields afields afks idx fks rel rule: pairKeys.induct)
    (auto split: option.splits)

lemma frame_namesOf: "frame A (namesOf flds)"
  unfolding namesOf_def by auto

lemma frame_associationKeys:
  "\<forall>v. frame A (G v) \<Longrightarrow> frame A (associationKeys G p toScope elemName names rel)"
  by (induction G p toScope elemName names rel rule: associationKeys.induct)
    (auto intro!: frame_FieldByName)

lemma frame_manyToMany:
  "\<forall>v. frame A (G v) \<Longrightarrow> field \<in> A \<Longrightarrow>
   frame A (manyToMany G p refType m field toScope elemName fks afks)"
  unfolding manyToMany_def
  by (auto simp: Let_def intro!: frame_PrimaryFieldsOf frame_associationKeys)

lemma frame_hasMany:
  "\<forall>v. frame A (G v) \<Longrightarrow> field \<in> A \<Longrightarrow>
   frame A (hasMany G p e modelValue refType m field toScope ts fks afks)"
  unfolding hasMany_def
  by (auto intro!: frame_polymorphic frame_resolveKeys frame_namesOf frame_PrimaryKey
      frame_pairKeys split: option.splits prod.splits)

lemma frame_buildRelationSlice:
  "\<forall>v. frame A (G v) \<Longrightarrow> field \<in> A \<Longrightarrow>
   frame A (buildRelationSlice G p e modelValue refType m field)"
  unfolding buildRelationSlice_def
  by (auto simp: Let_def intro!: frame_manyToMany frame_hasMany split: gotype.splits)

lemma frame_belongsTo:
  "\<forall>v. frame A (G v) \<Longrightarrow> field \<in> A \<Longrightarrow>
   frame A (belongsTo G p m field fieldName toScope toFields tfks tafks rel)"
  unfolding belongsTo_def
  by (auto intro!: frame_resolveKeys frame_namesOf frame_PrimaryKey frame_PrimaryFieldsOf
      frame_pairKeys split: prod.splits)

lemma frame_buildRelationStruct:
  "\<forall>v. frame A (G v) \<Longrightarrow> field \<in> A \<Longrightarrow>
   frame A (buildRelationStruct G p e modelValue refType m field)"
  unfolding buildRelationStruct_def
  by (auto simp: Let_def intro!: frame_polymorphic frame_resolveKeys frame_namesOf
      frame_PrimaryKey frame_pairKeys frame_TableName frame_belongsTo split: prod.splits)

lemma frame_runDeferred:
  "\<forall>v. frame A (G v) \<Longrightarrow> deferredField ` set ds \<subseteq> A \<Longrightarrow>
   frame A (runDeferred G p e mv refType m ds)"
  by (induction G p e mv refType m ds rule: runDeferred.induct)
    (auto intro!: frame_buildRelationSlice frame_buildRelationStruct)


subsection \<open>Rules for states grown from a base state\<close>

lemma keepsI:
  "(\<And>s x s'. touches {} s0 s \<Longrightarrow> f s = Ret (x, s') \<Longrightarrow> touches {} s0 s' \<and> Q x) \<Longrightarrow> keeps s0 f Q"
  by (simp add: keeps_def)

lemma keepsD:
  "keeps s0 f Q \<Longrightarrow> touches {} s0 s \<Longrightarrow> f s = Ret (x, s') \<Longrightarrow> touches {} s0 s' \<and> Q x"
  by (simp add: keeps_def)

lemma keeps_weaken: "keeps s0 f Q \<Longrightarrow> (\<And>x. Q x \<Longrightarrow> R x) \<Longrightarrow> keeps s0 f R"
  by (auto simp: keeps_def)

lemma touches_fresh:
  assumes 1: "touches {} s0 s" and 2: "touches A s s'" and A: "\<forall>a\<in>A. Next s0 \<le> a"
  shows "touches {} s0 s'"
proof (rule touchesI)
  show "Next s0 \<le> Next s'"
    using touches_Next [OF 1] touches_Next [OF 2] by simp
next
  fix k m assume "StructMap s0 k = Some m"
  then show "StructMap s' k = Some m"
    using touches_StructMap [OF 1] touches_StructMap [OF 2] by simp
next
  fix a :: nat assume "a \<in> {}"
  then show "sameDescription (Heap s0 a) (Heap s' a)" by simp
next
  fix a assume a: "a < Next s0"
  then have "a \<notin> A" using A by auto
  moreover have "a < Next s" using a touches_Next [OF 1] by simp
  ultimately have "sameButForeignKey (Heap s a) (Heap s' a)"
    using touches_out [OF 2] by simp
  moreover have "sameButForeignKey (Heap s0 a) (Heap s a)"
    using touches_out [OF 1 a] by simp
  ultimately show "sameButForeignKey (Heap s0 a) (Heap s' a)"
    using sameButForeignKey_trans by blast
qed

lemma keeps_frame:
  assumes "frame A f" and "\<forall>a\<in>A. Next s0 \<le> a"
  shows "keeps s0 f (\<lambda>x. True)"
proof (rule keepsI)
  fix s x s' assume "touches {} s0 s" and "f s = Ret (x, s')"
  then show "touches {} s0 s' \<and> True"
    using frameD [OF assms(1)] touches_fresh [OF _ _ assms(2)] by blast
qed

lemma keeps_ret: "Q x \<Longrightarrow> keeps s0 (ret x) Q"
  by (rule keepsI) (simp add: ret_def)

lemma keeps_bnd:
  assumes "keeps s0 m Q" and "\<And>x. Q x \<Longrightarrow> keeps s0 (k x) R"
  shows "keeps s0 (bnd m k) R"
proof (rule keepsI)
  fix s y s' assume t: "touches {} s0 s" and "bnd m k s = Ret (y, s')"
  then obtain x s1 where m: "m s = Ret (x, s1)" and k: "k x s1 = Ret (y, s')"
    by (auto elim: bnd_RetE)
  from keepsD [OF assms(1) t m] have "touches {} s0 s1" "Q x" by simp_all
  then show "touches {} s0 s' \<and> R y"
    using keepsD [OF assms(2) _ k] by simp
qed

lemma keeps_alloc: "keeps s0 (alloc v) (\<lambda>a. Next s0 \<le> a)"
proof (rule keepsI)
  fix s x s' assume t: "touches {} s0 s" and "alloc v s = Ret (x, s')"
  then have x: "x = Next s" and s': "s' = s\<lparr>Heap := (Heap s)(Next s := v), Next := Suc (Next s)\<rparr>"
    by (auto simp: alloc_def)
  have "touches {} s0 s'"
  proof (rule touchesI)
    show "Next s0 \<le> Next s'" using touches_Next [OF t] s' by simp
  next
    fix k m assume "StructMap s0 k = Some m"
    then show "StructMap s' k = Some m" using touches_StructMap [OF t] s' by simp
  next
    fix a :: nat assume "a \<in> {}"
    then show "sameDescription (Heap s0 a) (Heap s' a)" by simp
  next
    fix a assume "a < Next s0"
    then show "sameButForeignKey (Heap s0 a) (Heap s' a)"
      using touches_out [OF t, of a] touches_Next [OF t] s' by simp
  qed
  then show "touches {} s0 s' \<and> Next s0 \<le> x"
    using x touches_Next [OF t] by simp
qed

lemma keeps_heap_upd: "Next s0 \<le> a \<Longrightarrow> keeps s0 (heap_upd a f) (\<lambda>x. True)"
proof (rule keepsI)
  fix s x s' assume a: "Next s0 \<le> a" and t: "touches {} s0 s" and "heap_upd a f s = Ret (x, s')"
  then have s': "s' = s\<lparr>Heap := (Heap s)(a := f (Heap s a))\<rparr>"
    by (auto simp: heap_upd_def)
  have "touches {} s0 s'"
  proof (rule touchesI)
    show "Next s0 \<le> Next s'" using touches_Next [OF t] s' by simp
  next
    fix k m assume "StructMap s0 k = Some m"
    then show "StructMap s' k = Some m" using touches_StructMap [OF t] s' by simp
  next
    fix b :: nat assume "b \<in> {}"
    then show "sameDescription (Heap s0 b) (Heap s' b)" by simp
  next
    fix b assume "b < Next s0"
    then show "sameButForeignKey (Heap s0 b) (Heap s' b)"
      using touches_out [OF t, of b] a s' by simp
  qed
  then show "touches {} s0 s' \<and> True" by simp
qed

lemma keeps_StructMap_Set:
  "StructMap s0 k = None \<Longrightarrow> keeps s0 (StructMap_Set k m) (\<lambda>x. True)"
proof (rule keepsI)
  fix s x s' assume k: "StructMap s0 k = None" and t: "touches {} s0 s"
    and "StructMap_Set k m s = Ret (x, s')"
  then have s': "s' = s\<lparr>StructMap := (StructMap s)(k \<mapsto> m)\<rparr>"
    by (auto simp: StructMap_Set_def)
  have "touches {} s0 s'"
  proof (rule touchesI)
    show "Next s0 \<le> Next s'" using touches_Next [OF t] s' by simp
  next
    fix k' m' assume "StructMap s0 k' = Some m'"
    then show "StructMap s' k' = Some m'" using touches_StructMap [OF t] s' k by auto
  next
    fix b :: nat assume "b \<in> {}"
    then show "sameDescription (Heap s0 b) (Heap s' b)" by simp
  next
    fix b assume "b < Next s0"
    then show "sameButForeignKey (Heap s0 b) (Heap s' b)"
      using touches_out [OF t, of b] s' by simp
  qed
  then show "touches {} s0 s' \<and> True" by simp
qed

end
